theory Spec2Isabelle
  imports Main
begin

section \<open>Data exchanged with the server\<close>

text \<open>
  Modelled from the spec: the shape of the user record and of the response bodies of the
  REST endpoints (the server is not part of the repository). A user record has at least
  \<open>{id, username, email, role}\<close>; \<open>POST /api/auth/register\<close> and
  \<open>POST /api/auth/login\<close> answer \<open>{access_token, user}\<close>; \<open>GET /api/auth/me\<close>
  answers \<open>{user}\<close>.
\<close>

record user_record =
  user_id :: nat
  username :: string
  email :: string
  role :: string

record auth_payload =
  access_token :: string
  payload_user :: user_record

record me_payload =
  me_user :: user_record

text \<open>
  An axios call either resolves with the response body or throws. The catch blocks of
  authSlice.js read one thing from the thrown error, \<open>error.response?.data?.error\<close>:
  it is undefined (\<open>None\<close>) when there is no response, no body or no error field,
  and a message string when the server supplies one.
\<close>

datatype 'a response = Resolved 'a | Thrown "string option"

text \<open>JavaScript truthiness of a value that is a string, null or undefined.\<close>

fun truthy :: "string option \<Rightarrow> bool" where
  "truthy None = False"
| "truthy (Some s) = (s \<noteq> [])"

text \<open>\<open>v || d\<close> for such a value \<open>v\<close> and a default string \<open>d\<close>.\<close>

fun or_default :: "string option \<Rightarrow> string \<Rightarrow> string" where
  "or_default None d = d"
| "or_default (Some s) d = (if s \<noteq> [] then s else d)"

section \<open>The browser: durable store, transport header, outgoing requests\<close>

type_synonym form = "(string \<times> string) list"

datatype request = POST string form | GET string

text \<open>
  \<open>localStorage_token\<close> is \<open>localStorage.getItem('token')\<close>, \<open>authorization\<close> is
  \<open>axios.defaults.headers.common['Authorization']\<close>, and \<open>sent\<close> logs every
  request issued together with the credential header attached to it.
\<close>

record browser =
  localStorage_token :: "string option"
  authorization :: "string option"
  sent :: "(request \<times> string option) list"

definition axios_send :: "request \<Rightarrow> browser \<Rightarrow> browser" where
  "axios_send r b = b\<lparr>sent := sent b @ [(r, authorization b)]\<rparr>"

text \<open>authSlice.js, lines 5-13.\<close>

fun setAuthToken :: "string option \<Rightarrow> browser \<Rightarrow> browser" where
  "setAuthToken (Some t) b =
     (if t \<noteq> []
      then b\<lparr>authorization := Some (''Bearer '' @ t), localStorage_token := Some t\<rparr>
      else b\<lparr>authorization := None, localStorage_token := None\<rparr>)"
| "setAuthToken None b = b\<lparr>authorization := None, localStorage_token := None\<rparr>"

section \<open>The thunks (payload creators)\<close>

text \<open>
  A payload creator returns a value (the thunk is fulfilled with it) or the result of
  \<open>rejectWithValue\<close> (the thunk is rejected with that value as \<open>action.payload\<close>).
\<close>

datatype 'a settled = Fulfilled 'a | Rejected string

text \<open>authSlice.js, lines 16-29.\<close>

fun register :: "form \<Rightarrow> auth_payload response \<Rightarrow> browser \<Rightarrow> auth_payload settled \<times> browser" where
  "register userData (Resolved d) b =
     (Fulfilled d,
      setAuthToken (Some (access_token d)) (axios_send (POST ''/api/auth/register'' userData) b))"
| "register userData (Thrown e) b =
     (Rejected (or_default e ''Registration failed''),
      axios_send (POST ''/api/auth/register'' userData) b)"

text \<open>authSlice.js, lines 31-44.\<close>

fun login :: "form \<Rightarrow> auth_payload response \<Rightarrow> browser \<Rightarrow> auth_payload settled \<times> browser" where
  "login credentials (Resolved d) b =
     (Fulfilled d,
      setAuthToken (Some (access_token d)) (axios_send (POST ''/api/auth/login'' credentials) b))"
| "login credentials (Thrown e) b =
     (Rejected (or_default e ''Login failed''),
      axios_send (POST ''/api/auth/login'' credentials) b)"

text \<open>
  authSlice.js, lines 46-71. Without a truthy stored token the thunk rejects before any
  request and without calling \<open>setAuthToken\<close>; the server's answer is not consulted.
\<close>

definition checkAuthStatus :: "me_payload response \<Rightarrow> browser \<Rightarrow> me_payload settled \<times> browser" where
  "checkAuthStatus r b =
     (let token = localStorage_token b in
      if \<not> truthy token then (Rejected ''No token found'', b)
      else
        let b1 = axios_send (GET ''/api/auth/me'') (setAuthToken token b) in
        (case r of
           Resolved d \<Rightarrow> (Fulfilled d, b1)
         | Thrown e \<Rightarrow> (Rejected (or_default e ''Authentication failed''), setAuthToken None b1)))"

text \<open>authSlice.js, lines 73-86: both branches clear the token and return null.\<close>

fun logout :: "unit response \<Rightarrow> browser \<Rightarrow> unit settled \<times> browser" where
  "logout (Resolved _) b =
     (Fulfilled (), setAuthToken None (axios_send (POST ''/api/auth/logout'' []) b))"
| "logout (Thrown _) b =
     (Fulfilled (), setAuthToken None (axios_send (POST ''/api/auth/logout'' []) b))"

section \<open>The session store (authSlice)\<close>

record auth_state =
  token :: "string option"
  isAuthenticated :: bool
  user :: "user_record option"
  isLoading :: bool
  error :: "string option"

text \<open>authSlice.js, lines 89-95; the token is seeded from the durable store.\<close>

definition initialState :: "browser \<Rightarrow> auth_state" where
  "initialState b =
     \<lparr>token = localStorage_token b, isAuthenticated = False, user = None,
      isLoading = True, error = None\<rparr>"

datatype action =
    register_pending | register_fulfilled auth_payload | register_rejected string
  | login_pending | login_fulfilled auth_payload | login_rejected string
  | checkAuthStatus_pending | checkAuthStatus_fulfilled me_payload
  | checkAuthStatus_rejected string
  | logout_pending | logout_fulfilled | logout_rejected string
  | clearError

text \<open>
  authSlice.js, lines 98-165. Actions without a case (\<open>logout.pending\<close>,
  \<open>logout.rejected\<close>) leave the state as it is.
\<close>

fun authReducer :: "auth_state \<Rightarrow> action \<Rightarrow> auth_state" where
  "authReducer s clearError = s\<lparr>error := None\<rparr>"
| "authReducer s register_pending = s\<lparr>isLoading := True, error := None\<rparr>"
| "authReducer s (register_fulfilled p) =
     s\<lparr>isLoading := False, isAuthenticated := True,
       token := Some (access_token p), user := Some (payload_user p)\<rparr>"
| "authReducer s (register_rejected m) = s\<lparr>isLoading := False, error := Some m\<rparr>"
| "authReducer s login_pending = s\<lparr>isLoading := True, error := None\<rparr>"
| "authReducer s (login_fulfilled p) =
     s\<lparr>isLoading := False, isAuthenticated := True,
       token := Some (access_token p), user := Some (payload_user p)\<rparr>"
| "authReducer s (login_rejected m) = s\<lparr>isLoading := False, error := Some m\<rparr>"
| "authReducer s checkAuthStatus_pending = s\<lparr>isLoading := True, error := None\<rparr>"
| "authReducer s (checkAuthStatus_fulfilled p) =
     s\<lparr>isLoading := False, isAuthenticated := True, user := Some (me_user p)\<rparr>"
| "authReducer s (checkAuthStatus_rejected m) =
     s\<lparr>isLoading := False, isAuthenticated := False, token := None, user := None\<rparr>"
| "authReducer s logout_fulfilled =
     s\<lparr>isAuthenticated := False, token := None, user := None, isLoading := False\<rparr>"
| "authReducer s _ = s"

section \<open>Dispatching an operation\<close>

type_synonym world = "auth_state \<times> browser"

text \<open>
  The life cycle of a thunk made by \<open>createAsyncThunk\<close>: the pending action is reduced,
  the payload creator runs against the browser, and the fulfilled or the rejected action
  is reduced with its payload. Operations run one after the other.
\<close>

definition createAsyncThunk ::
  "action \<Rightarrow> ('a \<Rightarrow> action) \<Rightarrow> (string \<Rightarrow> action) \<Rightarrow> (browser \<Rightarrow> 'a settled \<times> browser)
   \<Rightarrow> world \<Rightarrow> world" where
  "createAsyncThunk pending fulfilled rejected payloadCreator w =
     (let s1 = authReducer (fst w) pending;
          (r, b') = payloadCreator (snd w)
      in (case r of
            Fulfilled p \<Rightarrow> (authReducer s1 (fulfilled p), b')
          | Rejected m \<Rightarrow> (authReducer s1 (rejected m), b')))"

datatype event =
    Register form "auth_payload response"
  | Login form "auth_payload response"
  | CheckStatus "me_payload response"
  | Logout "unit response"
  | ClearError

fun dispatch :: "event \<Rightarrow> world \<Rightarrow> world" where
  "dispatch (Register userData r) w =
     createAsyncThunk register_pending register_fulfilled register_rejected
       (register userData r) w"
| "dispatch (Login credentials r) w =
     createAsyncThunk login_pending login_fulfilled login_rejected (login credentials r) w"
| "dispatch (CheckStatus r) w =
     createAsyncThunk checkAuthStatus_pending checkAuthStatus_fulfilled
       checkAuthStatus_rejected (checkAuthStatus r) w"
| "dispatch (Logout r) w =
     createAsyncThunk logout_pending (\<lambda>_. logout_fulfilled) logout_rejected (logout r) w"
| "dispatch ClearError w = (authReducer (fst w) clearError, snd w)"

text \<open>
  The world at page load: the durable store holds whatever an earlier visit left there,
  no credential header is set, nothing has been sent.
\<close>

definition page_load :: "string option \<Rightarrow> world" where
  "page_load persisted =
     (let b = \<lparr>localStorage_token = persisted, authorization = None, sent = []\<rparr>
      in (initialState b, b))"

definition run :: "event list \<Rightarrow> world \<Rightarrow> world" where
  "run evs w = fold dispatch evs w"

section \<open>The route guard\<close>

datatype rendering = Nothing | Navigate string | Children

text \<open>
  ProtectedRoute.js, lines 10-30. \<open>user?.role\<close> is undefined when there is no user;
  \<open>requiredRole\<close> is an optional string prop, tested for truthiness.
\<close>

definition ProtectedRoute :: "auth_state \<Rightarrow> string option \<Rightarrow> rendering" where
  "ProtectedRoute s requiredRole =
     (if isLoading s then Nothing
      else if \<not> isAuthenticated s then Navigate ''/login''
      else if truthy requiredRole \<and> map_option role (user s) \<noteq> requiredRole
        then Navigate ''/''
      else Children)"

section \<open>Notions used in the statements\<close>

text \<open>The sample user of the spec's register scenario.\<close>

definition ann :: user_record where
  "ann = \<lparr>user_id = 1, username = ''ann'', email = ''ann@x.com'', role = ''user''\<rparr>"

text \<open>
  The credential header that belongs to a stored value: the one \<open>setAuthToken\<close> installs
  for it. The header and the durable store agree when the header is exactly that.
\<close>

fun bearer :: "string option \<Rightarrow> string option" where
  "bearer None = None"
| "bearer (Some t) = (if t \<noteq> [] then Some (''Bearer '' @ t) else None)"



text \<open>
  The route guard in the words of the spec, as a function of
  \<open>(isAuthenticated, user.role, isLoading, requiredRole)\<close>, with ``specified'' read as
  ``the prop was passed''.
\<close>

definition guard_as_claimed :: "bool \<Rightarrow> string option \<Rightarrow> bool \<Rightarrow> string option \<Rightarrow> rendering" where
  "guard_as_claimed authenticated userRole loading requiredRole =
     (if loading then Nothing
      else if \<not> authenticated then Navigate ''/login''
      else if requiredRole \<noteq> None \<and> userRole \<noteq> requiredRole then Navigate ''/''
      else Children)"

text \<open>The same cascade with ``specified'' read as ``a non-empty role was passed''.\<close>

definition guard :: "bool \<Rightarrow> string option \<Rightarrow> bool \<Rightarrow> string option \<Rightarrow> rendering" where
  "guard authenticated userRole loading requiredRole =
     (if loading then Nothing
      else if \<not> authenticated then Navigate ''/login''
      else if requiredRole \<noteq> None \<and> requiredRole \<noteq> Some [] \<and> userRole \<noteq> requiredRole
        then Navigate ''/''
      else Children)"

text \<open>The two invariants of the session store, over the session and the browser.\<close>

definition user_inv :: "world \<Rightarrow> bool" where
  "user_inv w = (isAuthenticated (fst w) \<longrightarrow> user (fst w) \<noteq> None)"

definition token_inv :: "world \<Rightarrow> bool" where
  "token_inv w =
     (token (fst w) = None \<longrightarrow>
        \<not> isAuthenticated (fst w) \<and> \<not> truthy (localStorage_token (snd w)))"

section \<open>Running sequences of operations\<close>

lemma run_Nil: "run [] w = w"
  by (simp add: run_def)

lemma run_Cons: "run (ev # evs) w = run evs (dispatch ev w)"
  by (simp add: run_def)

lemma run_invariant:
  assumes "P w" and "\<And>ev w. P w \<Longrightarrow> P (dispatch ev w)"
  shows "P (run evs w)"
  using assms(1)
proof (induction evs arbitrary: w)
  case Nil
  then show ?case by (simp add: run_Nil)
next
  case (Cons ev evs)
  then show ?case by (simp add: run_Cons assms(2))
qed

lemma page_load_unfold:
  "page_load persisted =
     (\<lparr>token = persisted, isAuthenticated = False, user = None, isLoading = True, error = None\<rparr>,
      \<lparr>localStorage_token = persisted, authorization = None, sent = []\<rparr>)"
  by (simp add: page_load_def initialState_def)

section \<open>What each operation does to the session and the browser\<close>

lemma setAuthToken_fields [simp]:
  "localStorage_token (setAuthToken t b) = (if truthy t then t else None)"
  "authorization (setAuthToken t b) = bearer t"
  "sent (setAuthToken t b) = sent b"
  by (cases t; simp)+

lemma axios_send_fields [simp]:
  "localStorage_token (axios_send q b) = localStorage_token b"
  "authorization (axios_send q b) = authorization b"
  "sent (axios_send q b) = sent b @ [(q, authorization b)]"
  by (simp_all add: axios_send_def)

declare setAuthToken.simps [simp del]

lemma dispatch_Register_Resolved:
  "dispatch (Register f (Resolved d)) (s, b) =
     (s\<lparr>isLoading := False, error := None, isAuthenticated := True,
        token := Some (access_token d), user := Some (payload_user d)\<rparr>,
      setAuthToken (Some (access_token d)) (axios_send (POST ''/api/auth/register'' f) b))"
  by (simp add: createAsyncThunk_def)

lemma dispatch_Register_Thrown:
  "dispatch (Register f (Thrown e)) (s, b) =
     (s\<lparr>isLoading := False, error := Some (or_default e ''Registration failed'')\<rparr>,
      axios_send (POST ''/api/auth/register'' f) b)"
  by (simp add: createAsyncThunk_def)

lemma dispatch_Login_Resolved:
  "dispatch (Login f (Resolved d)) (s, b) =
     (s\<lparr>isLoading := False, error := None, isAuthenticated := True,
        token := Some (access_token d), user := Some (payload_user d)\<rparr>,
      setAuthToken (Some (access_token d)) (axios_send (POST ''/api/auth/login'' f) b))"
  by (simp add: createAsyncThunk_def)

lemma dispatch_Login_Thrown:
  "dispatch (Login f (Thrown e)) (s, b) =
     (s\<lparr>isLoading := False, error := Some (or_default e ''Login failed'')\<rparr>,
      axios_send (POST ''/api/auth/login'' f) b)"
  by (simp add: createAsyncThunk_def)

lemma dispatch_CheckStatus_no_token:
  "\<not> truthy (localStorage_token b) \<Longrightarrow>
   dispatch (CheckStatus r) (s, b) =
     (s\<lparr>isLoading := False, error := None, isAuthenticated := False,
        token := None, user := None\<rparr>, b)"
  by (simp add: createAsyncThunk_def checkAuthStatus_def)

lemma dispatch_CheckStatus_Resolved:
  "truthy (localStorage_token b) \<Longrightarrow>
   dispatch (CheckStatus (Resolved d)) (s, b) =
     (s\<lparr>isLoading := False, error := None, isAuthenticated := True, user := Some (me_user d)\<rparr>,
      axios_send (GET ''/api/auth/me'') (setAuthToken (localStorage_token b) b))"
  by (simp add: createAsyncThunk_def checkAuthStatus_def)

lemma dispatch_CheckStatus_Thrown:
  "truthy (localStorage_token b) \<Longrightarrow>
   dispatch (CheckStatus (Thrown e)) (s, b) =
     (s\<lparr>isLoading := False, error := None, isAuthenticated := False,
        token := None, user := None\<rparr>,
      setAuthToken None (axios_send (GET ''/api/auth/me'') (setAuthToken (localStorage_token b) b)))"
  by (simp add: createAsyncThunk_def checkAuthStatus_def)

lemma dispatch_Logout:
  "dispatch (Logout r) (s, b) =
     (s\<lparr>isAuthenticated := False, token := None, user := None, isLoading := False\<rparr>,
      setAuthToken None (axios_send (POST ''/api/auth/logout'' []) b))"
  by (cases r) (simp_all add: createAsyncThunk_def)

lemma dispatch_ClearError:
  "dispatch ClearError (s, b) = (s\<lparr>error := None\<rparr>, b)"
  by simp

declare dispatch.simps [simp del]

section \<open>Invariants are kept by every operation\<close>

lemma user_inv_dispatch: "user_inv w \<Longrightarrow> user_inv (dispatch ev w)"
proof (cases w)
  case (Pair s b)
  assume inv: "user_inv w"
  show ?thesis
  proof (cases ev)
    case (Register f r)
    with Pair inv show ?thesis
      by (cases r) (simp_all add: dispatch_Register_Resolved dispatch_Register_Thrown user_inv_def)
  next
    case (Login f r)
    with Pair inv show ?thesis
      by (cases r) (simp_all add: dispatch_Login_Resolved dispatch_Login_Thrown user_inv_def)
  next
    case (CheckStatus r)
    show ?thesis
    proof (cases "truthy (localStorage_token b)")
      case True
      with Pair inv CheckStatus show ?thesis
        by (cases r)
          (simp_all add: dispatch_CheckStatus_Resolved dispatch_CheckStatus_Thrown user_inv_def)
    next
      case False
      with Pair inv CheckStatus show ?thesis
        by (simp add: dispatch_CheckStatus_no_token user_inv_def)
    qed
  next
    case (Logout r)
    with Pair inv show ?thesis by (simp add: dispatch_Logout user_inv_def)
  next
    case ClearError
    with Pair inv show ?thesis by (simp add: dispatch_ClearError user_inv_def)
  qed
qed

text \<open>
  A fulfilled status check sets \<open>isAuthenticated\<close> without writing \<open>state.token\<close>; it
  only runs when the durable store holds a token, and the store holds none whenever the
  session's token is absent.
\<close>

lemma token_inv_dispatch: "token_inv w \<Longrightarrow> token_inv (dispatch ev w)"
proof (cases w)
  case (Pair s b)
  assume inv: "token_inv w"
  show ?thesis
  proof (cases ev)
    case (Register f r)
    with Pair inv show ?thesis
      by (cases r) (simp_all add: dispatch_Register_Resolved dispatch_Register_Thrown token_inv_def)
  next
    case (Login f r)
    with Pair inv show ?thesis
      by (cases r) (simp_all add: dispatch_Login_Resolved dispatch_Login_Thrown token_inv_def)
  next
    case (CheckStatus r)
    show ?thesis
    proof (cases "truthy (localStorage_token b)")
      case True
      with Pair inv CheckStatus show ?thesis
        by (cases r)
          (auto simp add: dispatch_CheckStatus_Resolved dispatch_CheckStatus_Thrown token_inv_def)
    next
      case False
      with Pair inv CheckStatus show ?thesis
        by (simp add: dispatch_CheckStatus_no_token token_inv_def)
    qed
  next
    case (Logout r)
    with Pair inv show ?thesis by (simp add: dispatch_Logout token_inv_def)
  next
    case ClearError
    with Pair inv show ?thesis by (simp add: dispatch_ClearError token_inv_def)
  qed
qed










section \<open>Logout\<close>

text \<open>
  A login fails on a fresh page and leaves its message in the error field; the logout that
  follows does not remove it. The session after logout still carries the error of the
  failed login.
\<close>

theorem logout_keeps_error_counterexample:
  "error (fst (run [Login [] (Thrown None), Logout (Resolved ())] (page_load None))) =
     Some ''Login failed'' \<and>
   error (fst (run [Login [] (Thrown None), Logout (Resolved ())] (page_load None))) \<noteq> None"
  by (simp add: run_Cons run_Nil page_load_unfold dispatch_Login_Thrown dispatch_Logout)

text \<open>
  C1, as the code has it. For every starting session state, every browser state and every
  outcome of the remote logout request (resolved or thrown), the logout thunk is
  fulfilled, never rejected, and after it the session has \<open>isAuthenticated = false\<close>,
  no token, no user and \<open>isLoading = false\<close>. Logout does not write the error field:
  it is what it was before, so it is absent after a logout from a session without an
  error, and an error left by an earlier failure survives the logout. The durable store
  and the credential header are cleared as well.
\<close>

theorem logout_resets_session:
  "fst (logout r b) = Fulfilled () \<and>
   \<not> isAuthenticated (fst (dispatch (Logout r) (s, b))) \<and>
   token (fst (dispatch (Logout r) (s, b))) = None \<and>
   user (fst (dispatch (Logout r) (s, b))) = None \<and>
   \<not> isLoading (fst (dispatch (Logout r) (s, b))) \<and>
   error (fst (dispatch (Logout r) (s, b))) = error s \<and>
   error (fst (dispatch (Logout r) (s\<lparr>error := None\<rparr>, b))) = None \<and>
   localStorage_token (snd (dispatch (Logout r) (s, b))) = None \<and>
   authorization (snd (dispatch (Logout r) (s, b))) = None"
  by (cases r) (simp_all add: dispatch_Logout)

section \<open>Invariants of the reachable sessions\<close>

text \<open>
  C2. In every session state reached from the state at page load (whatever the durable
  store held) by any sequence of register, login, checkStatus and logout operations, each
  with a resolved or a thrown request, and of clearError actions:
  \<open>isAuthenticated = true\<close> implies that the user record is present.
\<close>

theorem authenticated_has_user:
  "isAuthenticated (fst (run evs (page_load persisted))) \<longrightarrow>
   user (fst (run evs (page_load persisted))) \<noteq> None"
proof -
  have "user_inv (page_load persisted)"
    by (simp add: user_inv_def page_load_unfold)
  then have "user_inv (run evs (page_load persisted))"
    by (rule run_invariant) (rule user_inv_dispatch)
  then show ?thesis by (simp add: user_inv_def)
qed

text \<open>After a successful login on a fresh page the session is authenticated and has a user.\<close>

theorem authenticated_has_user_witness:
  "isAuthenticated
     (fst (run [Login [] (Resolved \<lparr>access_token = ''t1'', payload_user = ann\<rparr>)]
        (page_load None))) \<and>
   user (fst (run [Login [] (Resolved \<lparr>access_token = ''t1'', payload_user = ann\<rparr>)]
        (page_load None))) \<noteq> None"
proof -
  have h: "isAuthenticated
     (fst (run [Login [] (Resolved \<lparr>access_token = ''t1'', payload_user = ann\<rparr>)]
        (page_load None)))"
    by (simp add: run_Cons run_Nil page_load_unfold dispatch_Login_Resolved)
  with authenticated_has_user
    [of "[Login [] (Resolved \<lparr>access_token = ''t1'', payload_user = ann\<rparr>)]" None]
  show ?thesis by simp
qed

text \<open>
  C5. In every session state reached from the state at page load by any sequence of
  register, login, checkStatus and logout operations, each with a resolved or a thrown
  request, and of clearError actions: an absent token implies
  \<open>isAuthenticated = false\<close>.
\<close>

theorem no_token_not_authenticated:
  "token (fst (run evs (page_load persisted))) = None \<longrightarrow>
   \<not> isAuthenticated (fst (run evs (page_load persisted)))"
proof -
  have "token_inv (page_load persisted)"
    by (simp add: token_inv_def page_load_unfold)
  then have "token_inv (run evs (page_load persisted))"
    by (rule run_invariant) (rule token_inv_dispatch)
  then show ?thesis by (simp add: token_inv_def)
qed

text \<open>After a login and a logout whose request failed, the token is absent.\<close>

theorem no_token_not_authenticated_witness:
  "token (fst (run [Login [] (Resolved \<lparr>access_token = ''t1'', payload_user = ann\<rparr>),
                    Logout (Thrown None)] (page_load None))) = None \<and>
   \<not> isAuthenticated
     (fst (run [Login [] (Resolved \<lparr>access_token = ''t1'', payload_user = ann\<rparr>),
                Logout (Thrown None)] (page_load None)))"
proof -
  have h: "token (fst (run [Login [] (Resolved \<lparr>access_token = ''t1'', payload_user = ann\<rparr>),
                    Logout (Thrown None)] (page_load None))) = None"
    by (simp add: run_Cons run_Nil page_load_unfold dispatch_Login_Resolved dispatch_Logout)
  with no_token_not_authenticated
    [of "[Login [] (Resolved \<lparr>access_token = ''t1'', payload_user = ann\<rparr>),
          Logout (Thrown None)]" None]
  show ?thesis by simp
qed

section \<open>Status check\<close>

text \<open>
  The rejected case of the status check does not store the rejection value: on a fresh
  page without a stored token the error field is not \<open>"No token found"\<close> afterwards.
\<close>

theorem checkStatus_no_token_error_counterexample:
  "error (fst (dispatch (CheckStatus (Thrown None)) (page_load None))) \<noteq> Some ''No token found''"
  by (simp add: page_load_unfold dispatch_CheckStatus_no_token)

text \<open>
  C3, as the code has it. When the checkStatus operation runs while no token is stored in
  the durable client-side store (none, or an empty one), the thunk is rejected with the
  value \<open>"No token found"\<close>, no request is issued and the browser is left untouched;
  the session's error field ends up absent, since the pending case clears it and the
  rejected case does not assign it.
\<close>

theorem checkStatus_without_token:
  assumes "\<not> truthy (localStorage_token b)"
  shows "fst (checkAuthStatus r b) = Rejected ''No token found'' \<and>
         sent (snd (dispatch (CheckStatus r) (s, b))) = sent b \<and>
         snd (dispatch (CheckStatus r) (s, b)) = b \<and>
         error (fst (dispatch (CheckStatus r) (s, b))) = None"
  using assms by (simp add: dispatch_CheckStatus_no_token checkAuthStatus_def)

theorem checkStatus_without_token_witness:
  "\<not> truthy (localStorage_token (snd (page_load None))) \<and>
   fst (checkAuthStatus (Thrown None) (snd (page_load None))) = Rejected ''No token found'' \<and>
   sent (snd (dispatch (CheckStatus (Thrown None)) (page_load None))) = [] \<and>
   error (fst (dispatch (CheckStatus (Thrown None)) (page_load None))) = None"
proof -
  have h: "\<not> truthy (localStorage_token (snd (page_load None)))"
    by (simp add: page_load_unfold)
  have "sent (snd (page_load None)) = []"
    by (simp add: page_load_unfold)
  with h checkStatus_without_token [OF h, of "Thrown None" "fst (page_load None)"]
  show ?thesis by simp
qed

text \<open>
  C6. For every session state, when a token is persisted and the verification request of
  the checkStatus operation fails, the token is removed from the durable store, from the
  credential header and from the session, and the session is anonymous:
  \<open>isAuthenticated = false\<close>, no token, no user. The one request issued carried the
  persisted token as its credential.
\<close>

theorem checkStatus_failure_purges:
  assumes "truthy (localStorage_token b)"
  shows "localStorage_token (snd (dispatch (CheckStatus (Thrown e)) (s, b))) = None \<and>
         authorization (snd (dispatch (CheckStatus (Thrown e)) (s, b))) = None \<and>
         token (fst (dispatch (CheckStatus (Thrown e)) (s, b))) = None \<and>
         \<not> isAuthenticated (fst (dispatch (CheckStatus (Thrown e)) (s, b))) \<and>
         user (fst (dispatch (CheckStatus (Thrown e)) (s, b))) = None \<and>
         sent (snd (dispatch (CheckStatus (Thrown e)) (s, b))) =
           sent b @ [(GET ''/api/auth/me'', bearer (localStorage_token b))]"
  using assms by (simp add: dispatch_CheckStatus_Thrown)

theorem checkStatus_failure_purges_witness:
  "truthy (localStorage_token (snd (page_load (Some ''stale'')))) \<and>
   localStorage_token
     (snd (dispatch (CheckStatus (Thrown None)) (page_load (Some ''stale'')))) = None \<and>
   authorization
     (snd (dispatch (CheckStatus (Thrown None)) (page_load (Some ''stale'')))) = None \<and>
   token (fst (dispatch (CheckStatus (Thrown None)) (page_load (Some ''stale'')))) = None \<and>
   \<not> isAuthenticated (fst (dispatch (CheckStatus (Thrown None)) (page_load (Some ''stale'')))) \<and>
   user (fst (dispatch (CheckStatus (Thrown None)) (page_load (Some ''stale'')))) = None"
proof -
  have h: "truthy (localStorage_token (snd (page_load (Some ''stale''))))"
    by (simp add: page_load_unfold)
  from h checkStatus_failure_purges [OF h, of None "fst (page_load (Some ''stale''))"]
  show ?thesis by simp
qed

section \<open>Failed login\<close>

text \<open>
  C8. For every unauthenticated session state with no token set, when the login request
  fails, the session's error field is the failure message the thunk was rejected with,
  \<open>isAuthenticated\<close> is still false, the token is still unset and the user field is
  unchanged. The durable store and the credential header are unchanged too.
\<close>

theorem login_failure_frame:
  assumes "\<not> isAuthenticated s" and "token s = None"
  shows "fst (login credentials (Thrown e) b) = Rejected (or_default e ''Login failed'') \<and>
         error (fst (dispatch (Login credentials (Thrown e)) (s, b))) =
           Some (or_default e ''Login failed'') \<and>
         \<not> isAuthenticated (fst (dispatch (Login credentials (Thrown e)) (s, b))) \<and>
         token (fst (dispatch (Login credentials (Thrown e)) (s, b))) = None \<and>
         user (fst (dispatch (Login credentials (Thrown e)) (s, b))) = user s \<and>
         localStorage_token (snd (dispatch (Login credentials (Thrown e)) (s, b))) =
           localStorage_token b \<and>
         authorization (snd (dispatch (Login credentials (Thrown e)) (s, b))) = authorization b"
  using assms by (simp add: dispatch_Login_Thrown)

theorem login_failure_frame_witness:
  "\<not> isAuthenticated (fst (page_load None)) \<and> token (fst (page_load None)) = None \<and>
   error (fst (dispatch
      (Login [(''username'', ''ann''), (''password'', ''wrong'')]
         (Thrown (Some ''Invalid credentials'')))
      (page_load None))) = Some ''Invalid credentials'' \<and>
   \<not> isAuthenticated (fst (dispatch
      (Login [(''username'', ''ann''), (''password'', ''wrong'')]
         (Thrown (Some ''Invalid credentials'')))
      (page_load None))) \<and>
   token (fst (dispatch
      (Login [(''username'', ''ann''), (''password'', ''wrong'')]
         (Thrown (Some ''Invalid credentials'')))
      (page_load None))) = None"
proof -
  have h1: "\<not> isAuthenticated (fst (page_load None))"
    and h2: "token (fst (page_load None)) = None"
    by (simp_all add: page_load_unfold)
  from h1 h2 login_failure_frame
    [OF h1 h2, of "[(''username'', ''ann''), (''password'', ''wrong'')]"
      "Some ''Invalid credentials''" "snd (page_load None)"]
  show ?thesis by simp
qed

section \<open>Failure messages\<close>

text \<open>
  An error field that the server supplies as the empty string is not what the thunk is
  rejected with: \<open>'' || 'Registration failed'\<close> is the default.
\<close>

theorem empty_error_field_counterexample:
  "fst (register [] (Thrown (Some '''')) (snd (page_load None))) \<noteq> Rejected ''''"
  by simp

text \<open>
  C7, as the code has it. Every failure of the register, login or checkStatus operation
  rejects with a single string: the server-supplied error field when it is present and
  not empty, otherwise the default of the operation, \<open>"Registration failed"\<close> for
  register, \<open>"Login failed"\<close> for login, \<open>"Authentication failed"\<close> for a failed
  verification, and \<open>"No token found"\<close> when checkStatus runs with no stored token.
\<close>

theorem failure_messages:
  "fst (register userData (Thrown None) b) = Rejected ''Registration failed'' \<and>
   fst (register userData (Thrown (Some [])) b) = Rejected ''Registration failed'' \<and>
   fst (register userData (Thrown (Some (c # cs))) b) = Rejected (c # cs) \<and>
   fst (login credentials (Thrown None) b) = Rejected ''Login failed'' \<and>
   fst (login credentials (Thrown (Some [])) b) = Rejected ''Login failed'' \<and>
   fst (login credentials (Thrown (Some (c # cs))) b) = Rejected (c # cs) \<and>
   fst (checkAuthStatus (Thrown None) (b\<lparr>localStorage_token := Some (k # ks)\<rparr>)) =
     Rejected ''Authentication failed'' \<and>
   fst (checkAuthStatus (Thrown (Some [])) (b\<lparr>localStorage_token := Some (k # ks)\<rparr>)) =
     Rejected ''Authentication failed'' \<and>
   fst (checkAuthStatus (Thrown (Some (c # cs))) (b\<lparr>localStorage_token := Some (k # ks)\<rparr>)) =
     Rejected (c # cs) \<and>
   fst (checkAuthStatus r (b\<lparr>localStorage_token := None\<rparr>)) = Rejected ''No token found''"
  by (simp add: checkAuthStatus_def Let_def)

section \<open>Route guard\<close>

text \<open>
  An empty \<open>requiredRole\<close> is passed, and it differs from the role \<open>user\<close> of the
  session, yet the guard renders the view: the empty string is falsy.
\<close>

theorem ProtectedRoute_empty_role_counterexample:
  "ProtectedRoute
     \<lparr>token = Some ''t1'', isAuthenticated = True, user = Some ann, isLoading = False,
      error = None\<rparr> (Some '''')
   \<noteq> guard_as_claimed True (Some ''user'') False (Some '''')"
  by (simp add: ProtectedRoute_def guard_as_claimed_def ann_def)

text \<open>
  C4, as the code has it. The route guard is a function of
  \<open>(isAuthenticated, user.role, isLoading, requiredRole)\<close> alone: if \<open>isLoading\<close> it
  renders nothing; else if \<open>isAuthenticated\<close> is false it redirects to the login view;
  else if \<open>requiredRole\<close> is a non-empty string and \<open>user.role\<close> differs from it, it
  redirects to the home view; otherwise it renders the requested view. In particular a
  session of role \<open>user\<close> is sent home from a view that requires \<open>admin\<close>, and a session
  of role \<open>admin\<close> is let in.
\<close>

theorem ProtectedRoute_cascade:
  "ProtectedRoute s requiredRole =
     guard (isAuthenticated s) (map_option role (user s)) (isLoading s) requiredRole \<and>
   ProtectedRoute
     (s\<lparr>isLoading := False, isAuthenticated := True, user := Some (u\<lparr>role := ''user''\<rparr>)\<rparr>)
     (Some ''admin'') = Navigate ''/'' \<and>
   ProtectedRoute
     (s\<lparr>isLoading := False, isAuthenticated := True, user := Some (u\<lparr>role := ''admin''\<rparr>)\<rparr>)
     (Some ''admin'') = Children"
proof (intro conjI)
  show "ProtectedRoute s requiredRole =
     guard (isAuthenticated s) (map_option role (user s)) (isLoading s) requiredRole"
    by (cases requiredRole) (simp_all add: ProtectedRoute_def guard_def)
qed (simp_all add: ProtectedRoute_def)

section \<open>The credential header and the durable store\<close>



section \<open>clearError\<close>

text \<open>
  C10. For every session state, the clearError action sets the error field to absent and
  leaves token, isAuthenticated, user and isLoading unchanged.
\<close>

theorem clearError_frame:
  "error (authReducer s clearError) = None \<and>
   token (authReducer s clearError) = token s \<and>
   isAuthenticated (authReducer s clearError) = isAuthenticated s \<and>
   user (authReducer s clearError) = user s \<and>
   isLoading (authReducer s clearError) = isLoading s"
  by simp

end
